theory Spec2Isabelle
  imports Main "HOL-Library.Word"
begin

section \<open>The Grafana reconciliation loop (controllers/grafana\_controller.go)\<close>

text \<open>
  A shallow embedding of \<^verbatim>\<open>Reconcile\<close>, \<^verbatim>\<open>manageError\<close>,
  \<^verbatim>\<open>getGrafanaAdminUrl\<close> and \<^verbatim>\<open>manageSuccess\<close>. A Go function
  returning \<^verbatim>\<open>(T, error)\<close> returns a pair whose second component is
  \<open>None\<close> for a nil error. Pointers that may be nil are options, and the effects of a
  cycle (cluster API calls, the process config store, the event channel, the event
  recorder) are threaded through an explicit world state.
\<close>

subsection \<open>Errors\<close>

text \<open>
  The errors of a cycle are classified by \<^verbatim>\<open>errors.IsNotFound\<close> and
  \<^verbatim>\<open>errors.IsConflict\<close> and read by \<^verbatim>\<open>Error()\<close>; every error carries
  its message.
\<close>

datatype error = NotFoundError string | ConflictError string | OtherError string

fun Error :: "error \<Rightarrow> string" where
  "Error (NotFoundError m) = m"
| "Error (ConflictError m) = m"
| "Error (OtherError m) = m"

fun IsNotFound :: "error \<Rightarrow> bool" where
  "IsNotFound (NotFoundError m) = True"
| "IsNotFound e = False"

fun IsConflict :: "error \<Rightarrow> bool" where
  "IsConflict (ConflictError m) = True"
| "IsConflict e = False"

subsection \<open>The managed object\<close>

text \<open>
  The types of \<^verbatim>\<open>api/v1alpha1\<close> are declared outside this file; the records below
  hold the fields the controller reads and writes. Label selectors and dashboard
  references are only copied, never inspected, so they stay opaque.
\<close>

typedecl LabelSelector

typedecl GrafanaDashboardRef

text \<open>
  \<^verbatim>\<open>map[string][]*GrafanaDashboardRef\<close>: a key is absent, or bound to a slice that
  may be nil, of pointers that may be nil. With a nil map as \<open>None\<close> (see the status
  record), HOL equality on this type is \<^verbatim>\<open>reflect.DeepEqual\<close>.
\<close>

type_synonym DashboardMap = "string \<rightharpoonup> GrafanaDashboardRef option list option"

text \<open>
  Modelled from the spec: the declaration of \<^verbatim>\<open>StatusPhase\<close> is missing. The spec
  gives the enum \<open>Reconciling\<close>, \<open>Failing\<close>; \<open>NoPhase\<close> is the zero value an
  object carries before its first status write.
\<close>

datatype StatusPhase = NoPhase | PhaseReconciling | PhaseFailing

text \<open>
  Modelled from the spec: the declaration of the status is missing. The spec gives it a
  phase, a message and the map of installed dashboards, the fields the controller
  assigns.
\<close>

record GrafanaStatus =
  Phase :: StatusPhase
  Message :: string
  InstalledDashboards :: "DashboardMap option"

record ClientSpec =
  PreferService :: bool
  TimeoutSeconds :: "int option"

record IngressSpec =
  Hostname :: string

record GrafanaSpec =
  Client :: "ClientSpec option"
  Ingress :: "IngressSpec option"
  DashboardLabelSelector :: "LabelSelector list"
  SpecDashboardNamespaceSelector :: "LabelSelector option"

record Grafana =
  Namespace :: string
  Name :: string
  Spec :: GrafanaSpec
  Status :: GrafanaStatus

type_synonym NamespacedName = "string \<times> string"

subsection \<open>The cluster state snapshot\<close>

record Route =
  RouteHost :: string

record LoadBalancerIngress =
  lbHostname :: string
  lbIP :: string

record IngressV1beta1 =
  LoadBalancerIngresses :: "LoadBalancerIngress list"

record Service =
  ServiceName :: string
  ClusterIP :: string

record ClusterState =
  GrafanaRoute :: "Route option"
  GrafanaIngress :: "IngressV1beta1 option"
  GrafanaService :: "Service option"

subsection \<open>Results and published facts\<close>

record Result =
  Requeue :: bool
  RequeueAfter :: int

text \<open>\<^verbatim>\<open>reconcile.Result{}\<close>\<close>

definition emptyResult :: Result where
  "emptyResult = \<lparr>Requeue = False, RequeueAfter = 0\<rparr>"

record ControllerState =
  DashboardSelectors :: "LabelSelector list"
  DashboardNamespaceSelector :: "LabelSelector option"
  AdminUrl :: string
  GrafanaReady :: bool
  ClientTimeout :: int

definition DefaultClientTimeoutSeconds :: int where
  "DefaultClientTimeoutSeconds = 5"

text \<open>\<^verbatim>\<open>common.ControllerState{GrafanaReady: false}\<close>: every other field is zero.\<close>

definition notReadyState :: ControllerState where
  "notReadyState =
     \<lparr>DashboardSelectors = [], DashboardNamespaceSelector = None, AdminUrl = [],
      GrafanaReady = False, ClientTimeout = 0\<rparr>"

subsection \<open>Collaborators declared outside this file\<close>

text \<open>
  The config keys, the requeue delay, the port lookup, the state reader, the action
  runner, the config-map reconciler and the methods of the process config store live in
  other packages. They are parameters of the model: every theorem holds for each
  implementation of them. The config store has type \<open>'c\<close>; \<open>Dashboards\<close> reads its
  field of that name. \<open>RunAll\<close> stands for computing the desired state and running it.
  The state reader, the action runner and the config-map reconciler report an error or
  none; they are taken to leave the Grafana object, the config store and the event
  channel as they are.
\<close>

datatype ConfigKey = ConfigDashboardLabelSelector | ConfigGrafanaDashboardsSynced

record 'c Deps =
  RequeueDelay :: int
  GetGrafanaPort :: "Grafana \<Rightarrow> 64 word"
  Read :: "Grafana \<Rightarrow> error + ClusterState"
  RunAll :: "ClusterState \<Rightarrow> Grafana \<Rightarrow> error option"
  reconcileConfigMaps :: "Grafana \<Rightarrow> error option"
  RemoveConfigItem :: "ConfigKey \<Rightarrow> 'c \<Rightarrow> 'c"
  Cleanup :: "bool \<Rightarrow> 'c \<Rightarrow> 'c"
  InvalidateDashboards :: "'c \<Rightarrow> 'c"
  GetConfigBool :: "ConfigKey \<Rightarrow> bool \<Rightarrow> 'c \<Rightarrow> bool"
  Dashboards :: "'c \<Rightarrow> DashboardMap option"
  SetDashboards :: "DashboardMap \<Rightarrow> 'c \<Rightarrow> 'c"

subsection \<open>String formatting\<close>

text \<open>\<^verbatim>\<open>%d\<close> of \<^verbatim>\<open>fmt.Sprintf\<close>: a signed decimal numeral.\<close>

fun decimal :: "nat \<Rightarrow> string" where
  "decimal n =
     (if n < 10 then [char_of (48 + n)]
      else decimal (n div 10) @ [char_of (48 + n mod 10)])"

declare decimal.simps [simp del]

definition Sprintf_d :: "int \<Rightarrow> string" where
  "Sprintf_d i = (if i < 0 then CHR ''-'' # decimal (nat (- i)) else decimal (nat i))"

subsection \<open>Endpoint resolution\<close>

text \<open>
  The loop over the load-balancer entries of the ingress. Its body returns on both
  branches, so the first entry decides; an empty list leaves the loop without a result.
\<close>

fun scanLoadBalancer :: "LoadBalancerIngress list \<Rightarrow> string option" where
  "scanLoadBalancer [] = None"
| "scanLoadBalancer (ingress # rest) =
     (if lbHostname ingress \<noteq> [] then Some (''https://'' @ lbHostname ingress)
      else Some (''https://'' @ lbIP ingress))"

text \<open>Lines 155-158: \<^verbatim>\<open>preferService\<close> is false unless the client spec sets it.\<close>

definition preferService :: "Grafana \<Rightarrow> bool" where
  "preferService cr = (case Client (Spec cr) of None \<Rightarrow> False | Some c \<Rightarrow> PreferService c)"

text \<open>Lines 168-179: the hostname of the spec if provided, otherwise the scan.\<close>

definition ingressUrl :: "Grafana \<Rightarrow> IngressV1beta1 \<Rightarrow> string option" where
  "ingressUrl cr ing =
     (case Ingress (Spec cr) of
        Some i \<Rightarrow>
          if Hostname i \<noteq> [] then Some (''https://'' @ Hostname i)
          else scanLoadBalancer (LoadBalancerIngresses ing)
      | None \<Rightarrow> scanLoadBalancer (LoadBalancerIngresses ing))"

text \<open>
  Lines 182-190: the port is converted to \<^verbatim>\<open>int32\<close> (the low 32 bits, read as
  signed) and printed with \<^verbatim>\<open>%d\<close>.
\<close>

definition serviceUrl :: "'c Deps \<Rightarrow> Grafana \<Rightarrow> Service \<Rightarrow> string" where
  "serviceUrl d cr svc =
     (let servicePort = (ucast (GetGrafanaPort d cr) :: 32 word)
      in if ClusterIP svc \<noteq> [] \<and> ClusterIP svc \<noteq> ''None''
         then ''http://'' @ ClusterIP svc @ '':'' @ Sprintf_d (sint servicePort)
         else ''http://'' @ ServiceName svc @ '':'' @ Sprintf_d (sint servicePort))"

definition getGrafanaAdminUrl :: "'c Deps \<Rightarrow> Grafana \<Rightarrow> ClusterState \<Rightarrow> string \<times> error option" where
  "getGrafanaAdminUrl d cr state =
     (let viaRoute = (case GrafanaRoute state of
                        Some route \<Rightarrow>
                          if \<not> preferService cr then Some (''https://'' @ RouteHost route) else None
                      | None \<Rightarrow> None);
          viaIngress = (case GrafanaIngress state of
                          Some ing \<Rightarrow> if \<not> preferService cr then ingressUrl cr ing else None
                        | None \<Rightarrow> None)
      in case viaRoute of
           Some url \<Rightarrow> (url, None)
         | None \<Rightarrow>
            (case viaIngress of
               Some url \<Rightarrow> (url, None)
             | None \<Rightarrow>
                (case GrafanaService state of
                   Some svc \<Rightarrow> (serviceUrl d cr svc, None)
                 | None \<Rightarrow> ([], Some (OtherError ''failed to find admin url'')))))"

subsection \<open>The world of a cycle\<close>

text \<open>
  The cluster API is a key-value store: an object is stored under its namespaced name
  as its spec and its status, and \<^verbatim>\<open>Get\<close> returns it with that name. A call of the
  client may also fail for reasons outside the controller (a conflicting writer, the
  network): \<open>Faults\<close> scripts the outcome of the coming calls, one entry per call,
  \<open>None\<close> for a call that is served; calls beyond the script are served.
  \<open>UpdateLog\<close> records every \<^verbatim>\<open>Status().Update\<close> issued, with the status sent and
  the outcome. \<open>Events\<close> holds the facts sent on \<^verbatim>\<open>common.ControllerEvents\<close>, oldest
  first, and \<open>Recorded\<close> the events given to the recorder (type, reason, message).
  Sending on the channel is taken to complete; logging is not modelled.
\<close>

record 'c World =
  Objects :: "NamespacedName \<rightharpoonup> GrafanaSpec \<times> GrafanaStatus"
  Faults :: "error option list"
  UpdateLog :: "(GrafanaStatus \<times> error option) list"
  Config :: 'c
  Events :: "ControllerState list"
  Recorded :: "(string \<times> string \<times> string) list"

definition nextFault :: "'c World \<Rightarrow> error option \<times> 'c World" where
  "nextFault w =
     (case Faults w of
        [] \<Rightarrow> (None, w)
      | f # fs \<Rightarrow> (f, w\<lparr>Faults := fs\<rparr>))"

text \<open>\<^verbatim>\<open>r.client.Get(r.context, key, instance)\<close>\<close>

definition client_Get :: "NamespacedName \<Rightarrow> 'c World \<Rightarrow> (error + Grafana) \<times> 'c World" where
  "client_Get key w =
     (let (fault, w1) = nextFault w
      in case fault of
           Some err \<Rightarrow> (Inl err, w1)
         | None \<Rightarrow>
            (case Objects w1 key of
               None \<Rightarrow> (Inl (NotFoundError ''not found''), w1)
             | Some (sp, st) \<Rightarrow>
                 (Inr \<lparr>Namespace = fst key, Name = snd key, Spec = sp, Status = st\<rparr>, w1)))"

definition logUpdate :: "GrafanaStatus \<Rightarrow> error option \<Rightarrow> 'c World \<Rightarrow> 'c World" where
  "logUpdate st outcome w = w\<lparr>UpdateLog := UpdateLog w @ [(st, outcome)]\<rparr>"

text \<open>
  \<^verbatim>\<open>r.client.Status().Update(r.context, cr)\<close>: the status subresource of the object
  named by \<open>cr\<close> is replaced by the status of \<open>cr\<close>; the stored spec stays. A call
  that is not served changes nothing in the store. The working copy keeps the status it
  sent.
\<close>

definition client_StatusUpdate :: "Grafana \<Rightarrow> 'c World \<Rightarrow> error option \<times> 'c World" where
  "client_StatusUpdate cr w =
     (let (fault, w1) = nextFault w;
          key = (Namespace cr, Name cr)
      in case fault of
           Some err \<Rightarrow> (Some err, logUpdate (Status cr) (Some err) w1)
         | None \<Rightarrow>
            (case Objects w1 key of
               None \<Rightarrow>
                 (Some (NotFoundError ''not found''),
                  logUpdate (Status cr) (Some (NotFoundError ''not found'')) w1)
             | Some (sp, st) \<Rightarrow>
                 (None,
                  logUpdate (Status cr) None
                    (w1\<lparr>Objects := (Objects w1)(key \<mapsto> (sp, Status cr))\<rparr>))))"

text \<open>\<^verbatim>\<open>r.recorder.Event(cr, eventtype, reason, message)\<close>\<close>

definition recorder_Event :: "string \<Rightarrow> string \<Rightarrow> string \<Rightarrow> 'c World \<Rightarrow> 'c World" where
  "recorder_Event eventtype reason message w =
     w\<lparr>Recorded := Recorded w @ [(eventtype, reason, message)]\<rparr>"

text \<open>\<^verbatim>\<open>common.ControllerEvents <- controllerState\<close>\<close>

definition publish :: "ControllerState \<Rightarrow> 'c World \<Rightarrow> 'c World" where
  "publish controllerState w = w\<lparr>Events := Events w @ [controllerState]\<rparr>"

subsection \<open>The error path\<close>

text \<open>
  Lines 120-149. The working copy is a pointer in the source; the status assigned to it is
  \<open>cr1\<close> here. A failed re-fetch and a failed status write return at once, the write
  with a nil error when it is a conflict.
\<close>

definition manageError ::
  "'c Deps \<Rightarrow> Grafana \<Rightarrow> error \<Rightarrow> NamespacedName \<Rightarrow> 'c World \<Rightarrow> (Result \<times> error option) \<times> 'c World" where
  "manageError d cr issue request w =
     (let w1 = recorder_Event ''Warning'' ''ProcessingError'' (Error issue) w;
          cr1 = cr\<lparr>Status := (Status cr)\<lparr>Phase := PhaseFailing, Message := Error issue\<rparr>\<rparr>;
          (got, w2) = client_Get request w1
      in case got of
           Inl err \<Rightarrow> ((emptyResult, Some err), w2)
         | Inr instance \<Rightarrow>
            (let (failed, w3) = (if Status cr1 \<noteq> Status instance
                                 then client_StatusUpdate cr1 w2 else (None, w2))
             in case failed of
                  Some err \<Rightarrow> ((emptyResult, if IsConflict err then None else Some err), w3)
                | None \<Rightarrow>
                   (let w4 = w3\<lparr>Config := InvalidateDashboards d (Config w3)\<rparr>;
                        w5 = publish notReadyState w4
                    in ((\<lparr>Requeue = False, RequeueAfter = RequeueDelay d\<rparr>, None), w5))))"

subsection \<open>The success path\<close>

text \<open>
  Lines 234 and 237-243: the timeout published with a ready state is the default unless
  the client spec supplies one, and a negative one is replaced by the default.
\<close>

definition clientTimeout :: "Grafana \<Rightarrow> int" where
  "clientTimeout cr =
     (case Client (Spec cr) of
        None \<Rightarrow> DefaultClientTimeoutSeconds
      | Some c \<Rightarrow>
         (case TimeoutSeconds c of
            None \<Rightarrow> DefaultClientTimeoutSeconds
          | Some seconds \<Rightarrow>
              if seconds < 0 then DefaultClientTimeoutSeconds else seconds))"

text \<open>
  Lines 196-250. Each failure (re-fetch, status write, endpoint resolution) goes to the
  error path with the working copy as assigned so far.
\<close>

definition manageSuccess ::
  "'c Deps \<Rightarrow> Grafana \<Rightarrow> ClusterState \<Rightarrow> NamespacedName \<Rightarrow> 'c World \<Rightarrow> (Result \<times> error option) \<times> 'c World" where
  "manageSuccess d cr state request w =
     (let cr1 = cr\<lparr>Status := (Status cr)\<lparr>Phase := PhaseReconciling, Message := ''success''\<rparr>\<rparr>;
          synced = GetConfigBool d ConfigGrafanaDashboardsSynced False (Config w);
          cr2 = (if synced
                 then cr1\<lparr>Status := (Status cr1)\<lparr>InstalledDashboards := Dashboards d (Config w)\<rparr>\<rparr>
                 else cr1);
          w1 = (if \<not> synced \<and> Dashboards d (Config w) = None
                then w\<lparr>Config := SetDashboards d Map.empty (Config w)\<rparr>
                else w);
          (got, w2) = client_Get request w1
      in case got of
           Inl err \<Rightarrow> manageError d cr2 err request w2
         | Inr instance \<Rightarrow>
            (let (failed, w3) = (if Status cr2 \<noteq> Status instance
                                 then client_StatusUpdate cr2 w2 else (None, w2))
             in case failed of
                  Some err \<Rightarrow> manageError d cr2 err request w3
                | None \<Rightarrow>
                   (case getGrafanaAdminUrl d cr2 state of
                      (url, Some err) \<Rightarrow> manageError d cr2 err request w3
                    | (url, None) \<Rightarrow>
                       (let controllerState =
                              \<lparr>DashboardSelectors = DashboardLabelSelector (Spec cr2),
                               DashboardNamespaceSelector = SpecDashboardNamespaceSelector (Spec cr2),
                               AdminUrl = url,
                               GrafanaReady = True,
                               ClientTimeout = clientTimeout cr2\<rparr>;
                            w4 = publish controllerState w3
                        in ((\<lparr>Requeue = False, RequeueAfter = RequeueDelay d\<rparr>, None), w4)))))"

subsection \<open>One reconciliation cycle\<close>

text \<open>Lines 73-119. \<open>cr\<close> is the deep copy of the fetched object.\<close>

definition Reconcile ::
  "'c Deps \<Rightarrow> NamespacedName \<Rightarrow> 'c World \<Rightarrow> (Result \<times> error option) \<times> 'c World" where
  "Reconcile d request w =
     (let (got, w1) = client_Get request w
      in case got of
           Inl err \<Rightarrow>
             if IsNotFound err then
               (let w2 = w1\<lparr>Config := RemoveConfigItem d ConfigDashboardLabelSelector (Config w1)\<rparr>;
                    w3 = w2\<lparr>Config := Cleanup d True (Config w2)\<rparr>;
                    w4 = publish notReadyState w3
                in ((emptyResult, None), w4))
             else ((emptyResult, Some err), w1)
         | Inr instance \<Rightarrow>
            (let cr = instance
             in case Read d cr of
                  Inl err \<Rightarrow> manageError d cr err request w1
                | Inr currentState \<Rightarrow>
                   (case RunAll d currentState cr of
                      Some err \<Rightarrow> manageError d cr err request w1
                    | None \<Rightarrow>
                       (case reconcileConfigMaps d cr of
                          Some err \<Rightarrow> manageError d cr err request w1
                        | None \<Rightarrow> manageSuccess d cr currentState request w1))))"

subsection \<open>Observations on a cycle\<close>

text \<open>The status writes issued and the facts published between two worlds of a run.\<close>

definition issued :: "'c World \<Rightarrow> 'c World \<Rightarrow> (GrafanaStatus \<times> error option) list" where
  "issued w w' = drop (length (UpdateLog w)) (UpdateLog w')"

definition published :: "'c World \<Rightarrow> 'c World \<Rightarrow> ControllerState list" where
  "published w w' = drop (length (Events w)) (Events w')"

text \<open>The object a \<^verbatim>\<open>Get\<close> of \<open>request\<close> returns for a stored spec and status.\<close>

definition fetched :: "NamespacedName \<Rightarrow> GrafanaSpec \<Rightarrow> GrafanaStatus \<Rightarrow> Grafana" where
  "fetched request sp st = \<lparr>Namespace = fst request, Name = snd request, Spec = sp, Status = st\<rparr>"

text \<open>The status the error path intends for an issue, and the one the success path intends.\<close>

definition failingStatus :: "Grafana \<Rightarrow> error \<Rightarrow> GrafanaStatus" where
  "failingStatus cr issue = (Status cr)\<lparr>Phase := PhaseFailing, Message := Error issue\<rparr>"

definition reconcilingStatus :: "'c Deps \<Rightarrow> Grafana \<Rightarrow> 'c \<Rightarrow> GrafanaStatus" where
  "reconcilingStatus d cr c =
     (Status cr)\<lparr>Phase := PhaseReconciling, Message := ''success'',
       InstalledDashboards :=
         (if GetConfigBool d ConfigGrafanaDashboardsSynced False c then Dashboards d c
          else InstalledDashboards (Status cr))\<rparr>"

text \<open>
  The config store after lines 202-208 of the success path: the dashboard cache is
  initialised when the dashboards are not synced and the cache is nil.
\<close>

definition ensureDashboards :: "'c Deps \<Rightarrow> 'c \<Rightarrow> 'c" where
  "ensureDashboards d c =
     (if \<not> GetConfigBool d ConfigGrafanaDashboardsSynced False c \<and> Dashboards d c = None
      then SetDashboards d Map.empty c else c)"

text \<open>The fact the success path publishes for an object and its admin URL.\<close>

definition readyState :: "Grafana \<Rightarrow> string \<Rightarrow> ControllerState" where
  "readyState cr url =
     \<lparr>DashboardSelectors = DashboardLabelSelector (Spec cr),
      DashboardNamespaceSelector = SpecDashboardNamespaceSelector (Spec cr),
      AdminUrl = url, GrafanaReady = True, ClientTimeout = clientTimeout cr\<rparr>"

text \<open>The phase persisted for an object, if the object is stored.\<close>

definition persistedPhase :: "'c World \<Rightarrow> NamespacedName \<Rightarrow> StatusPhase option" where
  "persistedPhase w request = map_option (\<lambda>(sp, st). Phase st) (Objects w request)"

subsection \<open>A concrete instance to run the model on\<close>

text \<open>
  A small config store: flags by key, the cached dashboard map, and a mark that the
  cache is valid. Invalidation and cleanup clear the mark.
\<close>

record SimpleConfig =
  Items :: "ConfigKey \<rightharpoonup> bool"
  Cache :: "DashboardMap option"
  CacheValid :: bool

text \<open>
  Collaborators with a requeue delay of ten seconds (in nanoseconds), port 3000, a state
  reader with the given outcome, and actions and config-map discovery that succeed.
\<close>

definition simpleDeps :: "(error + ClusterState) \<Rightarrow> SimpleConfig Deps" where
  "simpleDeps readOutcome =
     \<lparr>RequeueDelay = 10000000000,
      GetGrafanaPort = (\<lambda>cr. 3000),
      Read = (\<lambda>cr. readOutcome),
      RunAll = (\<lambda>state cr. None),
      reconcileConfigMaps = (\<lambda>cr. None),
      RemoveConfigItem = (\<lambda>k c. c\<lparr>Items := (Items c)(k := None)\<rparr>),
      Cleanup = (\<lambda>plugins c. c\<lparr>CacheValid := False\<rparr>),
      InvalidateDashboards = (\<lambda>c. c\<lparr>CacheValid := False\<rparr>),
      GetConfigBool = (\<lambda>k dflt c. case Items c k of None \<Rightarrow> dflt | Some b \<Rightarrow> b),
      Dashboards = Cache,
      SetDashboards = (\<lambda>m c. c\<lparr>Cache := Some m\<rparr>)\<rparr>"

definition simpleConfig :: SimpleConfig where
  "simpleConfig = \<lparr>Items = Map.empty, Cache = Some Map.empty, CacheValid = True\<rparr>"

definition plainSpec :: GrafanaSpec where
  "plainSpec =
     \<lparr>Client = None, Ingress = None, DashboardLabelSelector = [],
      SpecDashboardNamespaceSelector = None\<rparr>"

definition preferringSpec :: GrafanaSpec where
  "preferringSpec =
     plainSpec\<lparr>Client := Some \<lparr>PreferService = True, TimeoutSeconds = Some (- 5)\<rparr>\<rparr>"


definition healthyStatus :: GrafanaStatus where
  "healthyStatus =
     \<lparr>Phase = PhaseReconciling, Message = ''success'', InstalledDashboards = None\<rparr>"

definition staleStatus :: GrafanaStatus where
  "staleStatus = \<lparr>Phase = PhaseFailing, Message = ''old'', InstalledDashboards = None\<rparr>"

definition grafanaKey :: NamespacedName where
  "grafanaKey = (''monitoring'', ''grafana'')"

text \<open>A world holding one object under \<open>grafanaKey\<close>, with the given fault script.\<close>

definition simpleWorld :: "GrafanaSpec \<Rightarrow> GrafanaStatus \<Rightarrow> error option list \<Rightarrow> SimpleConfig World" where
  "simpleWorld sp st faults =
     \<lparr>Objects = [grafanaKey \<mapsto> (sp, st)], Faults = faults, UpdateLog = [],
      Config = simpleConfig, Events = [], Recorded = []\<rparr>"

text \<open>
  The object with a stale status, where the third call of the client (the status write of
  the success path) meets a conflict; in the second world the fifth call (the next
  status write) meets one too.
\<close>

definition conflictOnce :: "SimpleConfig World" where
  "conflictOnce =
     simpleWorld plainSpec staleStatus [None, None, Some (ConflictError ''conflict'')]"

definition conflictTwice :: "SimpleConfig World" where
  "conflictTwice =
     simpleWorld plainSpec staleStatus
       [None, None, Some (ConflictError ''conflict''), None, Some (ConflictError ''conflict'')]"

text \<open>
  The object with a healthy status, where the second call of the client (the re-fetch of
  the error path) fails, and where the third call (the status write of the error path)
  meets a conflict.
\<close>

definition refetchFails :: "SimpleConfig World" where
  "refetchFails =
     simpleWorld plainSpec healthyStatus [None, Some (OtherError ''connection refused'')]"

definition writeConflicts :: "SimpleConfig World" where
  "writeConflicts =
     simpleWorld plainSpec healthyStatus [None, None, Some (ConflictError ''conflict'')]"

text \<open>
  The object with a healthy status, for two runs of the error path one after the other:
  the first call of the client (the re-fetch) is served and the second (the status write)
  meets a conflict, in the first run and again in the second.
\<close>

definition conflictingWrites :: "SimpleConfig World" where
  "conflictingWrites =
     simpleWorld plainSpec healthyStatus
       [None, Some (ConflictError ''conflict''), None, Some (ConflictError ''conflict'')]"

text \<open>A world in which the object has been deleted.\<close>

definition emptyWorld :: "SimpleConfig World" where
  "emptyWorld =
     \<lparr>Objects = Map.empty, Faults = [], UpdateLog = [],
      Config = simpleConfig, Events = [], Recorded = []\<rparr>"

definition noEndpoint :: ClusterState where
  "noEndpoint = \<lparr>GrafanaRoute = None, GrafanaIngress = None, GrafanaService = None\<rparr>"

definition allEndpoints :: ClusterState where
  "allEndpoints =
     \<lparr>GrafanaRoute = Some \<lparr>RouteHost = ''grafana.apps.example.com''\<rparr>,
      GrafanaIngress = Some \<lparr>LoadBalancerIngresses =
        [\<lparr>lbHostname = [], lbIP = ''10.0.0.5''\<rparr>,
         \<lparr>lbHostname = ''lb.example.com'', lbIP = ''10.0.0.6''\<rparr>]\<rparr>,
      GrafanaService = Some \<lparr>ServiceName = ''grafana-service'', ClusterIP = ''10.96.0.12''\<rparr>\<rparr>"

definition ingressOnly :: ClusterState where
  "ingressOnly = allEndpoints\<lparr>GrafanaRoute := None\<rparr>"

definition unusableIngress :: ClusterState where
  "unusableIngress =
     allEndpoints\<lparr>GrafanaRoute := None,
                  GrafanaIngress := Some \<lparr>LoadBalancerIngresses = []\<rparr>\<rparr>"

section \<open>Endpoint resolution\<close>

lemma Sprintf_d_3000: "Sprintf_d 3000 = ''3000''"
  by code_simp

lemma scanLoadBalancer_nonempty: "scanLoadBalancer entries = Some url \<Longrightarrow> url \<noteq> []"
  by (cases entries) (auto split: if_splits)

lemma preferService_plain: "\<not> preferService (fetched grafanaKey plainSpec st)"
  by (simp add: preferService_def fetched_def plainSpec_def)

lemma preferService_preferring: "preferService (fetched grafanaKey preferringSpec st)"
  by (simp add: preferService_def fetched_def preferringSpec_def plainSpec_def)

lemma serviceUrl_simple:
  "serviceUrl (simpleDeps r) cr \<lparr>ServiceName = ''grafana-service'', ClusterIP = ''10.96.0.12''\<rparr>
     = ''http://10.96.0.12:3000''"
  by (simp add: serviceUrl_def simpleDeps_def Sprintf_d_3000)

text \<open>
  Claim C4. Endpoint resolution follows a strict priority order. Whenever a route is
  present and \<open>preferService\<close> is false, the result is \<open>https://<route host>\<close>, whatever
  the ingress and the service are. When \<open>preferService\<close> is true the result is decided
  by the service alone: the route and the ingress are skipped, and a present service
  yields the service-derived URL.
\<close>

theorem endpoint_priority:
  "(\<not> preferService cr \<and> GrafanaRoute state = Some route \<longrightarrow>
      getGrafanaAdminUrl d cr state = (''https://'' @ RouteHost route, None))
   \<and> (preferService cr \<longrightarrow>
      getGrafanaAdminUrl d cr state =
        (case GrafanaService state of
           Some svc \<Rightarrow> (serviceUrl d cr svc, None)
         | None \<Rightarrow> ([], Some (OtherError ''failed to find admin url''))))"
  by (simp add: getGrafanaAdminUrl_def split: option.splits)

theorem endpoint_priority_witness:
  "getGrafanaAdminUrl (simpleDeps (Inr allEndpoints))
       (fetched grafanaKey plainSpec staleStatus) allEndpoints
     = (''https://grafana.apps.example.com'', None)
   \<and> getGrafanaAdminUrl (simpleDeps (Inr allEndpoints))
       (fetched grafanaKey preferringSpec staleStatus) allEndpoints
     = (''http://10.96.0.12:3000'', None)"
proof -
  let ?d = "simpleDeps (Inr allEndpoints)"
  let ?plain = "fetched grafanaKey plainSpec staleStatus"
  let ?pref = "fetched grafanaKey preferringSpec staleStatus"
  have route: "GrafanaRoute allEndpoints = Some \<lparr>RouteHost = ''grafana.apps.example.com''\<rparr>"
    by (simp add: allEndpoints_def)
  have svc: "GrafanaService allEndpoints
               = Some \<lparr>ServiceName = ''grafana-service'', ClusterIP = ''10.96.0.12''\<rparr>"
    by (simp add: allEndpoints_def)
  from endpoint_priority [of ?plain allEndpoints _ ?d] preferService_plain route
  have "getGrafanaAdminUrl ?d ?plain allEndpoints = (''https://grafana.apps.example.com'', None)"
    by simp
  moreover from endpoint_priority [of ?pref allEndpoints _ ?d] preferService_preferring svc
  have "getGrafanaAdminUrl ?d ?pref allEndpoints = (''http://10.96.0.12:3000'', None)"
    by (simp add: serviceUrl_simple)
  ultimately show ?thesis by simp
qed

text \<open>
  Claim C6. In the ingress tier (\<open>preferService\<close> false, no route, an ingress, no hostname
  in the spec) the first load-balancer entry decides: \<open>https://<hostname>\<close> if its hostname
  is not empty, otherwise \<open>https://<ip>\<close> of that same entry. The later entries play no
  part in the result.
\<close>

theorem ingress_first_entry:
  assumes "\<not> preferService cr"
    and "GrafanaRoute state = None"
    and "GrafanaIngress state = Some ing"
    and "Ingress (Spec cr) = None \<or> (\<exists>i. Ingress (Spec cr) = Some i \<and> Hostname i = [])"
    and "LoadBalancerIngresses ing = entry # later"
  shows "getGrafanaAdminUrl d cr state =
           (''https://'' @ (if lbHostname entry \<noteq> [] then lbHostname entry else lbIP entry), None)"
  using assms by (auto simp: getGrafanaAdminUrl_def ingressUrl_def)

theorem ingress_first_entry_witness:
  "getGrafanaAdminUrl (simpleDeps (Inr ingressOnly))
       (fetched grafanaKey plainSpec staleStatus) ingressOnly
     = (''https://10.0.0.5'', None)"
proof -
  let ?later = "[\<lparr>lbHostname = ''lb.example.com'', lbIP = ''10.0.0.6''\<rparr>]"
  let ?ing = "\<lparr>LoadBalancerIngresses = \<lparr>lbHostname = [], lbIP = ''10.0.0.5''\<rparr> # ?later\<rparr>"
  have "GrafanaRoute ingressOnly = None" and "GrafanaIngress ingressOnly = Some ?ing"
    and "Ingress (Spec (fetched grafanaKey plainSpec staleStatus)) = None"
    and "LoadBalancerIngresses ?ing = \<lparr>lbHostname = [], lbIP = ''10.0.0.5''\<rparr> # ?later"
    by (simp_all add: ingressOnly_def allEndpoints_def fetched_def plainSpec_def)
  with ingress_first_entry [OF preferService_plain,
      where state = ingressOnly and ing = ?ing and later = ?later
        and entry = "\<lparr>lbHostname = [], lbIP = ''10.0.0.5''\<rparr>"
        and d = "simpleDeps (Inr ingressOnly)" and st1 = staleStatus]
  show ?thesis by simp
qed

text \<open>
  Claim C7. When no tier matches (no service, and the route and the ingress absent,
  skipped by \<open>preferService\<close>, or the ingress without a hostname in the spec and without
  load-balancer entries) resolution returns an error. A result without an error is never
  the empty string.
\<close>

theorem no_endpoint_is_error:
  "(GrafanaService state = None
      \<and> (GrafanaRoute state = None \<or> preferService cr)
      \<and> (GrafanaIngress state = None \<or> preferService cr
          \<or> (\<exists>ing. GrafanaIngress state = Some ing \<and> LoadBalancerIngresses ing = []
                \<and> (Ingress (Spec cr) = None
                    \<or> (\<exists>i. Ingress (Spec cr) = Some i \<and> Hostname i = [])))) \<longrightarrow>
      getGrafanaAdminUrl d cr state = ([], Some (OtherError ''failed to find admin url'')))
   \<and> (snd (getGrafanaAdminUrl d cr state) = None \<longrightarrow> fst (getGrafanaAdminUrl d cr state) \<noteq> [])"
  by (auto simp: getGrafanaAdminUrl_def ingressUrl_def serviceUrl_def Let_def
      dest: scanLoadBalancer_nonempty split: option.splits if_splits)

theorem no_endpoint_is_error_witness:
  "getGrafanaAdminUrl (simpleDeps (Inr noEndpoint))
       (fetched grafanaKey plainSpec staleStatus) noEndpoint
     = ([], Some (OtherError ''failed to find admin url''))
   \<and> fst (getGrafanaAdminUrl (simpleDeps (Inr allEndpoints))
       (fetched grafanaKey plainSpec staleStatus) allEndpoints) \<noteq> []"
proof -
  let ?cr = "fetched grafanaKey plainSpec staleStatus"
  have "GrafanaService noEndpoint = None" and "GrafanaRoute noEndpoint = None"
    and "GrafanaIngress noEndpoint = None"
    by (simp_all add: noEndpoint_def)
  with no_endpoint_is_error [of noEndpoint ?cr "simpleDeps (Inr noEndpoint)"]
  have "getGrafanaAdminUrl (simpleDeps (Inr noEndpoint)) ?cr noEndpoint
          = ([], Some (OtherError ''failed to find admin url''))"
    by simp
  moreover have "snd (getGrafanaAdminUrl (simpleDeps (Inr allEndpoints)) ?cr allEndpoints) = None"
    by (simp add: getGrafanaAdminUrl_def preferService_plain allEndpoints_def)
  with no_endpoint_is_error [of allEndpoints ?cr "simpleDeps (Inr allEndpoints)"]
  have "fst (getGrafanaAdminUrl (simpleDeps (Inr allEndpoints)) ?cr allEndpoints) \<noteq> []"
    by simp
  ultimately show ?thesis by simp
qed

text \<open>
  Claim C10. With \<open>preferService\<close> false, no route, and an ingress that gives nothing (no
  hostname in the spec, no load-balancer entry), resolution does not fail at the ingress:
  it returns the service-derived URL when a service is present and fails only when the
  service is absent too.
\<close>

theorem unusable_ingress_falls_through:
  assumes "\<not> preferService cr"
    and "GrafanaRoute state = None"
    and "GrafanaIngress state = Some ing"
    and "Ingress (Spec cr) = None \<or> (\<exists>i. Ingress (Spec cr) = Some i \<and> Hostname i = [])"
    and "LoadBalancerIngresses ing = []"
  shows "getGrafanaAdminUrl d cr state =
           (case GrafanaService state of
              Some svc \<Rightarrow> (serviceUrl d cr svc, None)
            | None \<Rightarrow> ([], Some (OtherError ''failed to find admin url'')))"
  using assms by (auto simp: getGrafanaAdminUrl_def ingressUrl_def split: option.splits)

theorem unusable_ingress_falls_through_witness:
  "getGrafanaAdminUrl (simpleDeps (Inr unusableIngress))
       (fetched grafanaKey plainSpec staleStatus) unusableIngress
     = (''http://10.96.0.12:3000'', None)"
proof -
  let ?ing = "\<lparr>LoadBalancerIngresses = []\<rparr>"
  have "GrafanaRoute unusableIngress = None" and "GrafanaIngress unusableIngress = Some ?ing"
    and "Ingress (Spec (fetched grafanaKey plainSpec staleStatus)) = None"
    and "LoadBalancerIngresses ?ing = []"
    and "GrafanaService unusableIngress
           = Some \<lparr>ServiceName = ''grafana-service'', ClusterIP = ''10.96.0.12''\<rparr>"
    by (simp_all add: unusableIngress_def allEndpoints_def fetched_def plainSpec_def)
  with unusable_ingress_falls_through [OF preferService_plain,
      where state = unusableIngress and ing = ?ing
        and d = "simpleDeps (Inr unusableIngress)" and st1 = staleStatus]
  show ?thesis by (simp add: serviceUrl_simple)
qed

section \<open>The reconciliation cycle\<close>

subsection \<open>Cluster API calls that are served\<close>

lemma client_Get_served:
  "Faults w = [] \<Longrightarrow> Objects w request = Some (sp, st) \<Longrightarrow>
   client_Get request w = (Inr (fetched request sp st), w)"
  by (simp add: client_Get_def nextFault_def fetched_def)

lemma client_StatusUpdate_served:
  "Faults w = [] \<Longrightarrow> Objects w (Namespace cr, Name cr) = Some (sp, st) \<Longrightarrow>
   client_StatusUpdate cr w =
     (None, w\<lparr>Objects := (Objects w)((Namespace cr, Name cr) \<mapsto> (sp, Status cr)),
              UpdateLog := UpdateLog w @ [(Status cr, None)]\<rparr>)"
  by (simp add: client_StatusUpdate_def nextFault_def logUpdate_def)

lemma manageError_served:
  assumes "Faults w = []" and "Objects w request = Some (sp, st)"
    and "(Namespace cr, Name cr) = request"
  shows "manageError d cr issue request w =
     ((\<lparr>Requeue = False, RequeueAfter = RequeueDelay d\<rparr>, None),
      w\<lparr>Objects := (Objects w)(request \<mapsto> (sp, failingStatus cr issue)),
        UpdateLog := UpdateLog w @
          (if failingStatus cr issue \<noteq> st then [(failingStatus cr issue, None)] else []),
        Config := InvalidateDashboards d (Config w),
        Events := Events w @ [notReadyState],
        Recorded := Recorded w @ [(''Warning'', ''ProcessingError'', Error issue)]\<rparr>)"
proof (cases "failingStatus cr issue = st")
  case True
  with assms have "(Objects w)(request \<mapsto> (sp, failingStatus cr issue)) = Objects w"
    by (simp add: map_upd_triv)
  with True assms show ?thesis
    by (simp add: manageError_def recorder_Event_def client_Get_served fetched_def
        failingStatus_def publish_def)
next
  case False
  with assms show ?thesis
    by (simp add: manageError_def recorder_Event_def client_Get_served client_StatusUpdate_served
        fetched_def failingStatus_def publish_def)
qed


lemma clientTimeout_Status [simp]: "clientTimeout (cr\<lparr>Status := s\<rparr>) = clientTimeout cr"
  by (simp add: clientTimeout_def)

lemma manageSuccess_alt:
  "manageSuccess d cr state request w =
     (let cr2 = cr\<lparr>Status := reconcilingStatus d cr (Config w)\<rparr>;
          w1 = w\<lparr>Config := ensureDashboards d (Config w)\<rparr>
      in case client_Get request w1 of
           (Inl err, w2) \<Rightarrow> manageError d cr2 err request w2
         | (Inr instance, w2) \<Rightarrow>
            (case (if Status cr2 \<noteq> Status instance
                   then client_StatusUpdate cr2 w2 else (None, w2)) of
               (Some err, w3) \<Rightarrow> manageError d cr2 err request w3
             | (None, w3) \<Rightarrow>
                (case getGrafanaAdminUrl d cr2 state of
                   (url, Some err) \<Rightarrow> manageError d cr2 err request w3
                 | (url, None) \<Rightarrow>
                    ((\<lparr>Requeue = False, RequeueAfter = RequeueDelay d\<rparr>, None),
                     publish (readyState cr url) w3))))"
proof -
  have cr2: "(if GetConfigBool d ConfigGrafanaDashboardsSynced False (Config w)
              then cr\<lparr>Status := (Status cr)\<lparr>Phase := PhaseReconciling, Message := ''success''\<rparr>\<rparr>
                     \<lparr>Status := (Status (cr\<lparr>Status := (Status cr)\<lparr>Phase := PhaseReconciling, Message := ''success''\<rparr>\<rparr>))
                        \<lparr>InstalledDashboards := Dashboards d (Config w)\<rparr>\<rparr>
              else cr\<lparr>Status := (Status cr)\<lparr>Phase := PhaseReconciling, Message := ''success''\<rparr>\<rparr>)
             = cr\<lparr>Status := reconcilingStatus d cr (Config w)\<rparr>"
    by (simp add: reconcilingStatus_def)
  have w1: "(if \<not> GetConfigBool d ConfigGrafanaDashboardsSynced False (Config w)
                \<and> Dashboards d (Config w) = None
             then w\<lparr>Config := SetDashboards d Map.empty (Config w)\<rparr> else w)
            = w\<lparr>Config := ensureDashboards d (Config w)\<rparr>"
    by (simp add: ensureDashboards_def)
  show ?thesis
    unfolding manageSuccess_def Let_def cr2 w1
    by (simp add: readyState_def split: prod.splits sum.splits option.splits)
qed

lemma manageSuccess_served:
  assumes "Faults w = []" and "Objects w request = Some (sp, st)"
    and "(Namespace cr, Name cr) = request"
    and "rs = reconcilingStatus d cr (Config w)"
    and "getGrafanaAdminUrl d (cr\<lparr>Status := rs\<rparr>) state = (url, None)"
  shows "manageSuccess d cr state request w =
     ((\<lparr>Requeue = False, RequeueAfter = RequeueDelay d\<rparr>, None),
      w\<lparr>Objects := (Objects w)(request \<mapsto> (sp, rs)),
        UpdateLog := UpdateLog w @ (if rs \<noteq> st then [(rs, None)] else []),
        Config := ensureDashboards d (Config w),
        Events := Events w @ [readyState cr url]\<rparr>)"
proof (cases "rs = st")
  case True
  with assms have "(Objects w)(request \<mapsto> (sp, rs)) = Objects w"
    by (simp add: map_upd_triv)
  with True assms show ?thesis
    by (simp add: manageSuccess_alt Let_def client_Get_served fetched_def publish_def)
next
  case False
  with assms show ?thesis
    by (simp add: manageSuccess_alt Let_def client_Get_served client_StatusUpdate_served fetched_def
        publish_def)
qed

lemma manageSuccess_served_no_url:
  assumes "Faults w = []" and "Objects w request = Some (sp, st)"
    and "(Namespace cr, Name cr) = request"
    and "rs = reconcilingStatus d cr (Config w)"
    and "getGrafanaAdminUrl d (cr\<lparr>Status := rs\<rparr>) state = (url, Some err)"
  shows "manageSuccess d cr state request w =
     ((\<lparr>Requeue = False, RequeueAfter = RequeueDelay d\<rparr>, None),
      w\<lparr>Objects := (Objects w)(request \<mapsto> (sp, failingStatus (cr\<lparr>Status := rs\<rparr>) err)),
        UpdateLog := UpdateLog w @ (if rs \<noteq> st then [(rs, None)] else [])
                       @ [(failingStatus (cr\<lparr>Status := rs\<rparr>) err, None)],
        Config := InvalidateDashboards d (ensureDashboards d (Config w)),
        Events := Events w @ [notReadyState],
        Recorded := Recorded w @ [(''Warning'', ''ProcessingError'', Error err)]\<rparr>)"
proof -
  have differs: "failingStatus (cr\<lparr>Status := rs\<rparr>) err \<noteq> rs"
  proof
    assume "failingStatus (cr\<lparr>Status := rs\<rparr>) err = rs"
    then have "Phase (failingStatus (cr\<lparr>Status := rs\<rparr>) err) = Phase rs" by simp
    with assms(4) show False by (simp add: failingStatus_def reconcilingStatus_def)
  qed
  show ?thesis
  proof (cases "rs = st")
    case True
    with assms differs show ?thesis
      by (simp add: manageSuccess_alt Let_def client_Get_served fetched_def manageError_served)
  next
    case False
    with assms differs show ?thesis
      by (simp add: manageSuccess_alt Let_def client_Get_served client_StatusUpdate_served fetched_def
          manageError_served)
  qed
qed


subsection \<open>What the calls leave unchanged\<close>

lemma client_Get_frame:
  "client_Get k w = (r, w') \<Longrightarrow>
   Events w' = Events w \<and> UpdateLog w' = UpdateLog w \<and> Config w' = Config w
   \<and> Objects w' = Objects w \<and> Recorded w' = Recorded w"
  by (auto simp: client_Get_def nextFault_def split: list.splits option.splits prod.splits)




lemma getGrafanaAdminUrl_error_Status:
  "snd (getGrafanaAdminUrl d (cr\<lparr>Status := s\<rparr>) state) = snd (getGrafanaAdminUrl d cr state)"
  by (simp add: getGrafanaAdminUrl_def preferService_def ingressUrl_def
      split: option.splits)

lemma Reconcile_served:
  assumes "Faults w = []" and "Objects w request = Some (sp, st)"
  shows "Reconcile d request w =
     (case Read d (fetched request sp st) of
        Inl err \<Rightarrow> manageError d (fetched request sp st) err request w
      | Inr currentState \<Rightarrow>
         (case RunAll d currentState (fetched request sp st) of
            Some err \<Rightarrow> manageError d (fetched request sp st) err request w
          | None \<Rightarrow>
             (case reconcileConfigMaps d (fetched request sp st) of
                Some err \<Rightarrow> manageError d (fetched request sp st) err request w
              | None \<Rightarrow> manageSuccess d (fetched request sp st) currentState request w)))"
  using assms by (simp add: Reconcile_def client_Get_served Let_def)

lemma fetched_key: "(Namespace (fetched request sp st), Name (fetched request sp st)) = request"
  by (simp add: fetched_def)

lemma client_Get_Recorded:
  "client_Get k (w\<lparr>Recorded := r\<rparr>)
     = (fst (client_Get k w), (snd (client_Get k w))\<lparr>Recorded := r\<rparr>)"
  by (simp add: client_Get_def nextFault_def split: list.splits option.splits)

lemma client_Get_Config:
  "client_Get k (w\<lparr>Config := c\<rparr>)
     = (fst (client_Get k w), (snd (client_Get k w))\<lparr>Config := c\<rparr>)"
  by (simp add: client_Get_def nextFault_def split: list.splits option.splits)

lemma UpdateLog_client_Get [simp]: "UpdateLog (snd (client_Get k w)) = UpdateLog w"
  using client_Get_frame [of k w "fst (client_Get k w)" "snd (client_Get k w)"] by simp

subsection \<open>Unfolding the model on concrete inputs\<close>

lemmas instance_defs = simpleDeps_def simpleWorld_def simpleConfig_def plainSpec_def
  preferringSpec_def staleStatus_def healthyStatus_def grafanaKey_def emptyWorld_def
  noEndpoint_def allEndpoints_def fetched_def

lemmas cycle_defs = Reconcile_def manageSuccess_def manageError_def getGrafanaAdminUrl_def
  client_Get_def client_StatusUpdate_def nextFault_def logUpdate_def publish_def
  recorder_Event_def preferService_def ingressUrl_def serviceUrl_def clientTimeout_def
  emptyResult_def notReadyState_def issued_def published_def persistedPhase_def

subsection \<open>Teardown\<close>

text \<open>
  Claim C5, as amended. When the initial fetch reports not-found, the cycle removes the
  label-selector entry from the process config store, cleans up the cached dashboards
  (\<^verbatim>\<open>Cleanup(true)\<close>), publishes a not-ready state and returns a nil error with an
  empty result: no requeue delay is scheduled for a deleted object.
\<close>

theorem teardown_outcome:
  assumes "fst (client_Get request w) = Inl err" and "IsNotFound err"
  shows "fst (Reconcile d request w) = (\<lparr>Requeue = False, RequeueAfter = 0\<rparr>, None)
       \<and> Config (snd (Reconcile d request w))
           = Cleanup d True (RemoveConfigItem d ConfigDashboardLabelSelector (Config w))
       \<and> published w (snd (Reconcile d request w)) = [notReadyState]"
proof -
  obtain w1 where get: "client_Get request w = (Inl err, w1)"
    using assms(1) by (cases "client_Get request w") simp
  from client_Get_frame [OF get] get assms(2) show ?thesis
    by (simp add: Reconcile_def publish_def published_def emptyResult_def)
qed

theorem teardown_outcome_witness:
  "fst (Reconcile (simpleDeps (Inr allEndpoints)) grafanaKey emptyWorld)
     = (\<lparr>Requeue = False, RequeueAfter = 0\<rparr>, None)
   \<and> Config (snd (Reconcile (simpleDeps (Inr allEndpoints)) grafanaKey emptyWorld))
       = simpleConfig\<lparr>CacheValid := False\<rparr>
   \<and> published emptyWorld (snd (Reconcile (simpleDeps (Inr allEndpoints)) grafanaKey emptyWorld))
       = [notReadyState]"
proof -
  have "fst (client_Get grafanaKey emptyWorld) = Inl (NotFoundError ''not found'')"
    by (simp add: client_Get_def nextFault_def emptyWorld_def)
  from teardown_outcome [OF this, of "simpleDeps (Inr allEndpoints)"]
  show ?thesis by (simp add: simpleDeps_def emptyWorld_def simpleConfig_def)
qed

text \<open>
  Claim C5 as stated has the teardown return the fixed requeue delay. For a deleted
  object and a delay of ten seconds the cycle returns a delay of zero.
\<close>

theorem teardown_requeue_counterexample:
  "RequeueAfter (fst (fst (Reconcile (simpleDeps (Inr allEndpoints)) grafanaKey emptyWorld)))
     \<noteq> RequeueDelay (simpleDeps (Inr allEndpoints))"
  by (simp add: instance_defs cycle_defs)

subsection \<open>The error path\<close>

text \<open>
  Claim C1, as amended. For every failure handled by the error path (state read, action
  execution, config discovery, endpoint resolution), in a cycle whose cluster API calls
  are served (the re-fetch finds the object and the status write is accepted), the
  persisted phase becomes \<open>Failing\<close> with the error's message, the dashboards of the
  config store are invalidated, a not-ready state is published, and the cycle returns the
  fixed requeue delay with a nil error.
\<close>

theorem error_path_outcome:
  assumes "Faults w = []" and "Objects w request = Some (sp, st)"
    and "cr = fetched request sp st"
    and "Read d cr = Inl issue
         \<or> (\<exists>cs. Read d cr = Inr cs \<and> RunAll d cs cr = Some issue)
         \<or> (\<exists>cs. Read d cr = Inr cs \<and> RunAll d cs cr = None
                \<and> reconcileConfigMaps d cr = Some issue)
         \<or> (\<exists>cs. Read d cr = Inr cs \<and> RunAll d cs cr = None
                \<and> reconcileConfigMaps d cr = None
                \<and> snd (getGrafanaAdminUrl d cr cs) = Some issue)"
  shows "fst (Reconcile d request w) = (\<lparr>Requeue = False, RequeueAfter = RequeueDelay d\<rparr>, None)
       \<and> (\<exists>st'. Objects (snd (Reconcile d request w)) request = Some (sp, st')
              \<and> Phase st' = PhaseFailing \<and> Message st' = Error issue)
       \<and> (Config (snd (Reconcile d request w)) = InvalidateDashboards d (Config w)
          \<or> Config (snd (Reconcile d request w))
               = InvalidateDashboards d (ensureDashboards d (Config w)))
       \<and> published w (snd (Reconcile d request w)) = [notReadyState]"
proof -
  note served = manageError_served [OF assms(1,2) fetched_key]
  consider (early) "Reconcile d request w = manageError d cr issue request w"
    | (url) cs where "Reconcile d request w = manageSuccess d cr cs request w"
        and "snd (getGrafanaAdminUrl d cr cs) = Some issue"
    using assms(4) by (auto simp: Reconcile_served [OF assms(1,2)] assms(3))
  then show ?thesis
  proof cases
    case early
    then show ?thesis
      by (simp add: assms(3) served failingStatus_def published_def)
  next
    case url
    let ?rs = "reconcilingStatus d cr (Config w)"
    obtain u where "getGrafanaAdminUrl d (cr\<lparr>Status := ?rs\<rparr>) cs = (u, Some issue)"
      using url(2) getGrafanaAdminUrl_error_Status [where d = d and cr = cr and s = ?rs and state = cs]
      by (cases "getGrafanaAdminUrl d (cr\<lparr>Status := ?rs\<rparr>) cs") simp
    with url(1) show ?thesis
      using manageSuccess_served_no_url [OF assms(1,2) fetched_key refl,
          where d = d and state = cs and url = u and err = issue]
      by (simp add: assms(3) failingStatus_def published_def)
  qed
qed

theorem error_path_outcome_witness:
  "fst (Reconcile (simpleDeps (Inl (OtherError ''boom''))) grafanaKey
          (simpleWorld plainSpec healthyStatus []))
     = (\<lparr>Requeue = False, RequeueAfter = 10000000000\<rparr>, None)
   \<and> persistedPhase (snd (Reconcile (simpleDeps (Inl (OtherError ''boom''))) grafanaKey
          (simpleWorld plainSpec healthyStatus []))) grafanaKey = Some PhaseFailing
   \<and> published (simpleWorld plainSpec healthyStatus [])
        (snd (Reconcile (simpleDeps (Inl (OtherError ''boom''))) grafanaKey
          (simpleWorld plainSpec healthyStatus []))) = [notReadyState]"
proof -
  let ?d = "simpleDeps (Inl (OtherError ''boom''))"
  let ?w = "simpleWorld plainSpec healthyStatus []"
  have "Faults ?w = []" and "Objects ?w grafanaKey = Some (plainSpec, healthyStatus)"
    and "Read ?d (fetched grafanaKey plainSpec healthyStatus) = Inl (OtherError ''boom'')"
    and "RequeueDelay ?d = 10000000000"
    by (simp_all add: simpleWorld_def simpleDeps_def)
  with error_path_outcome [where d = ?d and w = ?w and request = grafanaKey
      and sp = plainSpec and st = healthyStatus and issue = "OtherError ''boom''",
      OF _ _ refl]
  show ?thesis by (auto simp: persistedPhase_def)
qed

text \<open>
  Claim C1 as stated covers every handled failure. When the re-fetch of the error path
  fails, the cycle returns that error with an empty result. When the status write of the
  error path meets a conflict, the cycle returns an empty result and a nil error. In both
  runs no requeue delay is returned, the persisted phase stays \<open>Reconciling\<close>, the
  dashboard cache is not invalidated and nothing is published.
\<close>

theorem error_path_early_return_counterexample:
  "fst (Reconcile (simpleDeps (Inl (OtherError ''boom''))) grafanaKey refetchFails)
     = (\<lparr>Requeue = False, RequeueAfter = 0\<rparr>, Some (OtherError ''connection refused''))
   \<and> persistedPhase
        (snd (Reconcile (simpleDeps (Inl (OtherError ''boom''))) grafanaKey refetchFails))
        grafanaKey = Some PhaseReconciling
   \<and> CacheValid
        (Config (snd (Reconcile (simpleDeps (Inl (OtherError ''boom''))) grafanaKey refetchFails)))
   \<and> Events (snd (Reconcile (simpleDeps (Inl (OtherError ''boom''))) grafanaKey refetchFails))
       = []
   \<and> fst (Reconcile (simpleDeps (Inl (OtherError ''boom''))) grafanaKey writeConflicts)
     = (\<lparr>Requeue = False, RequeueAfter = 0\<rparr>, None)
   \<and> persistedPhase
        (snd (Reconcile (simpleDeps (Inl (OtherError ''boom''))) grafanaKey writeConflicts))
        grafanaKey = Some PhaseReconciling
   \<and> CacheValid
        (Config (snd (Reconcile (simpleDeps (Inl (OtherError ''boom''))) grafanaKey writeConflicts)))
   \<and> Events (snd (Reconcile (simpleDeps (Inl (OtherError ''boom''))) grafanaKey writeConflicts))
       = []
   \<and> RequeueDelay (simpleDeps (Inl (OtherError ''boom''))) = 10000000000
   \<and> \<not> CacheValid (InvalidateDashboards (simpleDeps (Inl (OtherError ''boom''))) simpleConfig)"
  by (simp add: refetchFails_def writeConflicts_def instance_defs cycle_defs)

subsection \<open>Status writes\<close>

lemma manageError_equal_no_write:
  assumes "fst (client_Get request w) = Inr current"
    and "Status current = failingStatus cr issue"
  shows "issued w (snd (manageError d cr issue request w)) = []"
  using assms
  by (simp add: manageError_def recorder_Event_def client_Get_Recorded failingStatus_def
      publish_def issued_def Let_def)

lemma manageSuccess_equal_no_write:
  assumes "fst (client_Get request w) = Inr current"
    and "Status current = reconcilingStatus d cr (Config w)"
    and "snd (getGrafanaAdminUrl d cr state) = None"
  shows "issued w (snd (manageSuccess d cr state request w)) = []"
proof -
  let ?rs = "reconcilingStatus d cr (Config w)"
  obtain u where "getGrafanaAdminUrl d (cr\<lparr>Status := ?rs\<rparr>) state = (u, None)"
    using assms(3) getGrafanaAdminUrl_error_Status [where d = d and cr = cr and s = ?rs
        and state = state]
    by (cases "getGrafanaAdminUrl d (cr\<lparr>Status := ?rs\<rparr>) state") simp
  with assms(1,2) show ?thesis
    by (simp add: manageSuccess_alt client_Get_Config publish_def issued_def Let_def)
qed

lemma manageError_missing:
  assumes "Faults w = []" and "Objects w request = None"
  shows "issued w (snd (manageError d cr issue request w)) = []
       \<and> Faults (snd (manageError d cr issue request w)) = []
       \<and> Objects (snd (manageError d cr issue request w)) = Objects w"
  using assms
  by (simp add: manageError_def recorder_Event_def client_Get_def nextFault_def issued_def)

lemma manageError_twice:
  assumes "Faults w = []" and "(Namespace cr, Name cr) = request"
  shows "length (issued w (snd (manageError d cr issue request
            (snd (manageError d cr issue request w))))) \<le> 1"
proof (cases "Objects w request")
  case None
  let ?w1 = "snd (manageError d cr issue request w)"
  from manageError_missing [OF assms(1) None, of d cr issue]
  have first: "UpdateLog ?w1 = UpdateLog w" "Faults ?w1 = []" "Objects ?w1 request = None"
    using None by (simp_all add: issued_def manageError_def recorder_Event_def client_Get_def
        nextFault_def assms(1))
  from manageError_missing [OF first(2,3), of d cr issue] first(1)
  show ?thesis by (simp add: issued_def)
next
  case (Some stored)
  obtain sp st where stored: "Objects w request = Some (sp, st)"
    using Some by (cases stored) simp
  let ?fs = "failingStatus cr issue"
  let ?w1 = "w\<lparr>Objects := (Objects w)(request \<mapsto> (sp, ?fs)),
        UpdateLog := UpdateLog w @ (if ?fs \<noteq> st then [(?fs, None)] else []),
        Config := InvalidateDashboards d (Config w),
        Events := Events w @ [notReadyState],
        Recorded := Recorded w @ [(''Warning'', ''ProcessingError'', Error issue)]\<rparr>"
  have first: "snd (manageError d cr issue request w) = ?w1"
    by (simp add: manageError_served [OF assms(1) stored assms(2)])
  have "Faults ?w1 = []" and "Objects ?w1 request = Some (sp, ?fs)"
    by (simp_all add: assms(1))
  from manageError_served [OF this assms(2), of d issue] show ?thesis
    by (simp add: first issued_def)
qed

lemma manageSuccess_missing:
  assumes "Faults w = []" and "Objects w request = None"
  shows "issued w (snd (manageSuccess d cr state request w)) = []
       \<and> Faults (snd (manageSuccess d cr state request w)) = []
       \<and> Objects (snd (manageSuccess d cr state request w)) = Objects w"
  using assms
  by (simp add: manageSuccess_alt manageError_def recorder_Event_def client_Get_def
      nextFault_def issued_def Let_def)

lemma manageSuccess_twice:
  assumes "Faults w = []" and "(Namespace cr, Name cr) = request"
    and "snd (getGrafanaAdminUrl d cr state) = None"
    and "reconcilingStatus d cr (ensureDashboards d (Config w))
           = reconcilingStatus d cr (Config w)"
  shows "length (issued w (snd (manageSuccess d cr state request
            (snd (manageSuccess d cr state request w))))) \<le> 1"
proof (cases "Objects w request")
  case None
  let ?w1 = "snd (manageSuccess d cr state request w)"
  from manageSuccess_missing [OF assms(1) None, of d cr state]
  have first: "UpdateLog ?w1 = UpdateLog w" "Faults ?w1 = []" "Objects ?w1 request = None"
    using None by (simp_all add: issued_def manageSuccess_alt manageError_def recorder_Event_def
        client_Get_def nextFault_def assms(1) Let_def)
  from manageSuccess_missing [OF first(2,3), of d cr state] first(1)
  show ?thesis by (simp add: issued_def)
next
  case (Some stored)
  obtain sp st where stored: "Objects w request = Some (sp, st)"
    using Some by (cases stored) simp
  let ?rs = "reconcilingStatus d cr (Config w)"
  obtain u where url: "getGrafanaAdminUrl d (cr\<lparr>Status := ?rs\<rparr>) state = (u, None)"
    using assms(3) getGrafanaAdminUrl_error_Status [where d = d and cr = cr and s = ?rs
        and state = state]
    by (cases "getGrafanaAdminUrl d (cr\<lparr>Status := ?rs\<rparr>) state") simp
  let ?w1 = "w\<lparr>Objects := (Objects w)(request \<mapsto> (sp, ?rs)),
        UpdateLog := UpdateLog w @ (if ?rs \<noteq> st then [(?rs, None)] else []),
        Config := ensureDashboards d (Config w),
        Events := Events w @ [readyState cr u]\<rparr>"
  have first: "snd (manageSuccess d cr state request w) = ?w1"
    by (simp add: manageSuccess_served [OF assms(1) stored assms(2) refl url])
  have "Faults ?w1 = []" and "Objects ?w1 request = Some (sp, ?rs)"
    and "?rs = reconcilingStatus d cr (Config ?w1)"
    by (simp_all add: assms(1,4))
  from manageSuccess_served [OF this(1,2) assms(2) this(3) url] show ?thesis
    by (simp add: first issued_def)
qed

text \<open>
  Claim C2, as amended. The status update re-fetches the object and compares the
  intended status with the persisted one by equality of the whole status; when they are
  equal no write is issued, in the error path and in the success path (there, for a cycle
  that resolves its endpoint and so does not enter the error path afterwards). Applying
  the same intended status twice issues at most one write provided the cluster API
  serves its calls, so that the first write, when one is issued, is accepted: for the
  error path, and for the success path with a resolvable endpoint and a config store that
  yields the same intended status on both applications.
\<close>

theorem status_update_idempotent:
  "(fst (client_Get request w) = Inr current \<and> Status current = failingStatus cr issue \<longrightarrow>
      issued w (snd (manageError d cr issue request w)) = [])
   \<and> (fst (client_Get request w) = Inr current
       \<and> Status current = reconcilingStatus d cr (Config w)
       \<and> snd (getGrafanaAdminUrl d cr state) = None \<longrightarrow>
      issued w (snd (manageSuccess d cr state request w)) = [])
   \<and> (Faults w = [] \<and> (Namespace cr, Name cr) = request \<longrightarrow>
      length (issued w (snd (manageError d cr issue request
                (snd (manageError d cr issue request w))))) \<le> 1)
   \<and> (Faults w = [] \<and> (Namespace cr, Name cr) = request
       \<and> snd (getGrafanaAdminUrl d cr state) = None
       \<and> reconcilingStatus d cr (ensureDashboards d (Config w))
           = reconcilingStatus d cr (Config w) \<longrightarrow>
      length (issued w (snd (manageSuccess d cr state request
                (snd (manageSuccess d cr state request w))))) \<le> 1)"
proof (intro conjI impI; elim conjE)
  assume "fst (client_Get request w) = Inr current" and "Status current = failingStatus cr issue"
  then show "issued w (snd (manageError d cr issue request w)) = []"
    by (rule manageError_equal_no_write)
next
  assume "fst (client_Get request w) = Inr current"
    and "Status current = reconcilingStatus d cr (Config w)"
    and "snd (getGrafanaAdminUrl d cr state) = None"
  then show "issued w (snd (manageSuccess d cr state request w)) = []"
    by (rule manageSuccess_equal_no_write)
next
  assume "Faults w = []" and "(Namespace cr, Name cr) = request"
  then show "length (issued w (snd (manageError d cr issue request
                (snd (manageError d cr issue request w))))) \<le> 1"
    by (rule manageError_twice)
next
  assume "Faults w = []" and "(Namespace cr, Name cr) = request"
    and "snd (getGrafanaAdminUrl d cr state) = None"
    and "reconcilingStatus d cr (ensureDashboards d (Config w))
           = reconcilingStatus d cr (Config w)"
  then show "length (issued w (snd (manageSuccess d cr state request
                (snd (manageSuccess d cr state request w))))) \<le> 1"
    by (rule manageSuccess_twice)
qed

theorem status_update_idempotent_witness:
  "issued (simpleWorld plainSpec staleStatus [])
     (snd (manageError (simpleDeps (Inr allEndpoints))
        (fetched grafanaKey plainSpec healthyStatus) (OtherError ''old'') grafanaKey
        (simpleWorld plainSpec staleStatus []))) = []
   \<and> issued (simpleWorld plainSpec healthyStatus [])
     (snd (manageSuccess (simpleDeps (Inr allEndpoints))
        (fetched grafanaKey plainSpec staleStatus) allEndpoints grafanaKey
        (simpleWorld plainSpec healthyStatus []))) = []
   \<and> length (issued (simpleWorld plainSpec healthyStatus [])
       (snd (manageError (simpleDeps (Inr allEndpoints))
          (fetched grafanaKey plainSpec healthyStatus) (OtherError ''boom'') grafanaKey
          (snd (manageError (simpleDeps (Inr allEndpoints))
             (fetched grafanaKey plainSpec healthyStatus) (OtherError ''boom'') grafanaKey
             (simpleWorld plainSpec healthyStatus [])))))) \<le> 1
   \<and> length (issued (simpleWorld plainSpec staleStatus [])
       (snd (manageSuccess (simpleDeps (Inr allEndpoints))
          (fetched grafanaKey plainSpec staleStatus) allEndpoints grafanaKey
          (snd (manageSuccess (simpleDeps (Inr allEndpoints))
             (fetched grafanaKey plainSpec staleStatus) allEndpoints grafanaKey
             (simpleWorld plainSpec staleStatus [])))))) \<le> 1
   \<and> issued (simpleWorld plainSpec staleStatus [])
       (snd (manageSuccess (simpleDeps (Inr allEndpoints))
          (fetched grafanaKey plainSpec staleStatus) allEndpoints grafanaKey
          (snd (manageSuccess (simpleDeps (Inr allEndpoints))
             (fetched grafanaKey plainSpec staleStatus) allEndpoints grafanaKey
             (simpleWorld plainSpec staleStatus [])))))
     = [(healthyStatus, None)]"
proof -
  let ?d = "simpleDeps (Inr allEndpoints)"
  let ?stale = "simpleWorld plainSpec staleStatus []"
  let ?healthy = "simpleWorld plainSpec healthyStatus []"
  let ?crs = "fetched grafanaKey plainSpec staleStatus"
  let ?crh = "fetched grafanaKey plainSpec healthyStatus"
  have gets: "fst (client_Get grafanaKey ?stale) = Inr ?crs"
      "fst (client_Get grafanaKey ?healthy) = Inr ?crh"
    by (simp_all add: client_Get_def nextFault_def simpleWorld_def fetched_def)
  have same: "Status ?crs = failingStatus ?crh (OtherError ''old'')"
      "Status ?crh = reconcilingStatus ?d ?crs (Config ?healthy)"
    by (simp_all add: fetched_def failingStatus_def reconcilingStatus_def staleStatus_def
        healthyStatus_def simpleDeps_def simpleWorld_def simpleConfig_def)
  have url: "snd (getGrafanaAdminUrl ?d ?crs allEndpoints) = None"
    by (simp add: getGrafanaAdminUrl_def preferService_plain allEndpoints_def)
  have served: "Faults ?stale = []" "Faults ?healthy = []"
      "(Namespace ?crs, Name ?crs) = grafanaKey" "(Namespace ?crh, Name ?crh) = grafanaKey"
    by (simp_all add: simpleWorld_def fetched_def)
  have frame: "reconcilingStatus ?d ?crs (ensureDashboards ?d (Config ?stale))
                 = reconcilingStatus ?d ?crs (Config ?stale)"
    by (simp add: ensureDashboards_def simpleDeps_def simpleWorld_def simpleConfig_def)
  from status_update_idempotent [where request = grafanaKey and w = ?stale and current = ?crs
      and cr = ?crh and issue = "OtherError ''old''" and d = ?d] gets(1) same(1)
  have one: "issued ?stale (snd (manageError ?d ?crh (OtherError ''old'') grafanaKey ?stale)) = []"
    by blast
  from status_update_idempotent [where request = grafanaKey and w = ?healthy and current = ?crh
      and cr = ?crs and d = ?d and state = allEndpoints] gets(2) same(2) url
  have two: "issued ?healthy (snd (manageSuccess ?d ?crs allEndpoints grafanaKey ?healthy)) = []"
    by blast
  from status_update_idempotent [where request = grafanaKey and w = ?healthy
      and cr = ?crh and issue = "OtherError ''boom''" and d = ?d] served(2,4)
  have three: "length (issued ?healthy (snd (manageError ?d ?crh (OtherError ''boom'') grafanaKey
       (snd (manageError ?d ?crh (OtherError ''boom'') grafanaKey ?healthy))))) \<le> 1"
    by blast
  from status_update_idempotent [where request = grafanaKey and w = ?stale
      and cr = ?crs and d = ?d and state = allEndpoints] served(1,3) url frame
  have four: "length (issued ?stale (snd (manageSuccess ?d ?crs allEndpoints grafanaKey
       (snd (manageSuccess ?d ?crs allEndpoints grafanaKey ?stale))))) \<le> 1"
    by blast
  have five: "issued ?stale (snd (manageSuccess ?d ?crs allEndpoints grafanaKey
       (snd (manageSuccess ?d ?crs allEndpoints grafanaKey ?stale))))
     = [(healthyStatus, None)]"
    by (simp add: instance_defs cycle_defs)
  from one two three four five show ?thesis by blast
qed

text \<open>
  Claim C2 as stated has two applications of the same intended status issue at most one
  write, whatever the cluster API answers. When the status write of the error path meets
  a conflict, the persisted status stays as it was, and the second application finds it
  different from the intended one and issues a second write.
\<close>

theorem status_update_conflict_counterexample:
  "issued conflictingWrites
     (snd (manageError (simpleDeps (Inr allEndpoints))
        (fetched grafanaKey plainSpec healthyStatus) (OtherError ''boom'') grafanaKey
        (snd (manageError (simpleDeps (Inr allEndpoints))
           (fetched grafanaKey plainSpec healthyStatus) (OtherError ''boom'') grafanaKey
           conflictingWrites))))
   = [(\<lparr>Phase = PhaseFailing, Message = ''boom'', InstalledDashboards = None\<rparr>,
       Some (ConflictError ''conflict'')),
      (\<lparr>Phase = PhaseFailing, Message = ''boom'', InstalledDashboards = None\<rparr>,
       Some (ConflictError ''conflict''))]"
  by (simp add: conflictingWrites_def instance_defs cycle_defs)

text \<open>
  Claim C3. A conflict on a status write is to be swallowed, not retried and not treated
  as a reconciliation failure. The error path does so (lines 131-139). The success path
  (lines 216-220) hands every update error, a conflict included, to the error path. Run
  on a cycle whose status write in the success path meets a conflict: a warning event is
  recorded for the conflict and a second status write, with phase \<open>Failing\<close> and the
  conflict's message, is issued in the same cycle. When that write meets a conflict too,
  the cycle ends with an empty result; when it is accepted, \<open>Failing\<close> is persisted and a
  not-ready state is published.
\<close>

theorem success_path_conflict_is_failure:
  "fst (Reconcile (simpleDeps (Inr allEndpoints)) grafanaKey conflictTwice)
     = (\<lparr>Requeue = False, RequeueAfter = 0\<rparr>, None)
   \<and> UpdateLog (snd (Reconcile (simpleDeps (Inr allEndpoints)) grafanaKey conflictTwice))
     = [(\<lparr>Phase = PhaseReconciling, Message = ''success'', InstalledDashboards = None\<rparr>,
         Some (ConflictError ''conflict'')),
        (\<lparr>Phase = PhaseFailing, Message = ''conflict'', InstalledDashboards = None\<rparr>,
         Some (ConflictError ''conflict''))]
   \<and> Recorded (snd (Reconcile (simpleDeps (Inr allEndpoints)) grafanaKey conflictTwice))
     = [(''Warning'', ''ProcessingError'', ''conflict'')]
   \<and> fst (Reconcile (simpleDeps (Inr allEndpoints)) grafanaKey conflictOnce)
     = (\<lparr>Requeue = False, RequeueAfter = 10000000000\<rparr>, None)
   \<and> UpdateLog (snd (Reconcile (simpleDeps (Inr allEndpoints)) grafanaKey conflictOnce))
     = [(\<lparr>Phase = PhaseReconciling, Message = ''success'', InstalledDashboards = None\<rparr>,
         Some (ConflictError ''conflict'')),
        (\<lparr>Phase = PhaseFailing, Message = ''conflict'', InstalledDashboards = None\<rparr>, None)]
   \<and> Objects (snd (Reconcile (simpleDeps (Inr allEndpoints)) grafanaKey conflictOnce)) grafanaKey
     = Some (plainSpec,
         \<lparr>Phase = PhaseFailing, Message = ''conflict'', InstalledDashboards = None\<rparr>)
   \<and> Events (snd (Reconcile (simpleDeps (Inr allEndpoints)) grafanaKey conflictOnce))
     = [notReadyState]"
  by (simp add: conflictOnce_def conflictTwice_def instance_defs cycle_defs)

subsection \<open>Phases within a cycle\<close>

text \<open>
  Claim C8, as amended. In a cycle whose cluster API calls are served: an error in state
  read, action execution or config discovery persists \<open>Failing\<close> and every status write
  of the cycle carries \<open>Failing\<close>; a fully successful cycle persists \<open>Reconciling\<close> and
  every status write carries \<open>Reconciling\<close>; a cycle whose endpoint resolution fails ends
  with \<open>Failing\<close> persisted, after writing \<open>Reconciling\<close> first whenever the persisted
  status differs from the intended one, since the status write precedes the resolution.
\<close>

theorem phase_transitions:
  fixes d :: "'c Deps" and w w' :: "'c World" and request :: NamespacedName
  defines "w' \<equiv> snd (Reconcile d request w)"
  assumes "Faults w = []" and "Objects w request = Some (sp, st)"
    and "cr = fetched request sp st"
  shows "((Read d cr = Inl issue
           \<or> (\<exists>cs. Read d cr = Inr cs \<and> RunAll d cs cr = Some issue)
           \<or> (\<exists>cs. Read d cr = Inr cs \<and> RunAll d cs cr = None
                  \<and> reconcileConfigMaps d cr = Some issue)) \<longrightarrow>
          persistedPhase w' request = Some PhaseFailing
          \<and> (\<forall>u \<in> set (issued w w'). Phase (fst u) = PhaseFailing))
       \<and> (\<forall>cs. Read d cr = Inr cs \<and> RunAll d cs cr = None
                \<and> reconcileConfigMaps d cr = None \<longrightarrow>
             (snd (getGrafanaAdminUrl d cr cs) = None \<longrightarrow>
                persistedPhase w' request = Some PhaseReconciling
                \<and> (\<forall>u \<in> set (issued w w'). Phase (fst u) = PhaseReconciling))
             \<and> (snd (getGrafanaAdminUrl d cr cs) \<noteq> None \<longrightarrow>
                persistedPhase w' request = Some PhaseFailing
                \<and> map (\<lambda>u. Phase (fst u)) (issued w w')
                    = (if st \<noteq> reconcilingStatus d cr (Config w) then [PhaseReconciling] else [])
                      @ [PhaseFailing]))"
proof -
  have key: "(Namespace cr, Name cr) = request"
    by (simp add: assms(4) fetched_def)
  have nofault: "Faults w = []" and stored: "Objects w request = Some (sp, st)"
    by (rule assms)+
  let ?rs = "reconcilingStatus d cr (Config w)"
  have early: "persistedPhase w' request = Some PhaseFailing
               \<and> (\<forall>u \<in> set (issued w w'). Phase (fst u) = PhaseFailing)"
    if "Read d cr = Inl issue
         \<or> (\<exists>cs. Read d cr = Inr cs \<and> RunAll d cs cr = Some issue)
         \<or> (\<exists>cs. Read d cr = Inr cs \<and> RunAll d cs cr = None
                \<and> reconcileConfigMaps d cr = Some issue)"
  proof -
    from that have "Reconcile d request w = manageError d cr issue request w"
      by (auto simp: Reconcile_served [OF nofault stored] assms(4))
    then show ?thesis
      by (simp add: w'_def manageError_served [OF nofault stored key] persistedPhase_def
          issued_def failingStatus_def)
  qed
  have late: "(snd (getGrafanaAdminUrl d cr cs) = None \<longrightarrow>
                persistedPhase w' request = Some PhaseReconciling
                \<and> (\<forall>u \<in> set (issued w w'). Phase (fst u) = PhaseReconciling))
             \<and> (snd (getGrafanaAdminUrl d cr cs) \<noteq> None \<longrightarrow>
                persistedPhase w' request = Some PhaseFailing
                \<and> map (\<lambda>u. Phase (fst u)) (issued w w')
                    = (if st \<noteq> ?rs then [PhaseReconciling] else []) @ [PhaseFailing])"
    if "Read d cr = Inr cs \<and> RunAll d cs cr = None \<and> reconcileConfigMaps d cr = None" for cs
  proof -
    from that have run: "Reconcile d request w = manageSuccess d cr cs request w"
      by (simp add: Reconcile_served [OF nofault stored] assms(4))
    obtain u e where url: "getGrafanaAdminUrl d (cr\<lparr>Status := ?rs\<rparr>) cs = (u, e)"
      by (cases "getGrafanaAdminUrl d (cr\<lparr>Status := ?rs\<rparr>) cs")
    with getGrafanaAdminUrl_error_Status [where d = d and cr = cr and s = ?rs and state = cs]
    have e: "snd (getGrafanaAdminUrl d cr cs) = e" by simp
    show ?thesis
    proof (cases e)
      case None
      with url manageSuccess_served [OF nofault stored key refl, where d = d and state = cs and url = u]
      have "manageSuccess d cr cs request w =
              ((\<lparr>Requeue = False, RequeueAfter = RequeueDelay d\<rparr>, None),
               w\<lparr>Objects := (Objects w)(request \<mapsto> (sp, ?rs)),
                 UpdateLog := UpdateLog w @ (if ?rs \<noteq> st then [(?rs, None)] else []),
                 Config := ensureDashboards d (Config w),
                 Events := Events w @ [readyState cr u]\<rparr>)"
        by simp
      with None e show ?thesis
        by (simp add: w'_def run persistedPhase_def issued_def reconcilingStatus_def)
    next
      case (Some err)
      with url manageSuccess_served_no_url [OF nofault stored key refl,
          where d = d and state = cs and url = u and err = err]
      have "manageSuccess d cr cs request w =
              ((\<lparr>Requeue = False, RequeueAfter = RequeueDelay d\<rparr>, None),
               w\<lparr>Objects := (Objects w)(request \<mapsto> (sp, failingStatus (cr\<lparr>Status := ?rs\<rparr>) err)),
                 UpdateLog := UpdateLog w @ (if ?rs \<noteq> st then [(?rs, None)] else [])
                                @ [(failingStatus (cr\<lparr>Status := ?rs\<rparr>) err, None)],
                 Config := InvalidateDashboards d (ensureDashboards d (Config w)),
                 Events := Events w @ [notReadyState],
                 Recorded := Recorded w @ [(''Warning'', ''ProcessingError'', Error err)]\<rparr>)"
        by simp
      with Some e show ?thesis
        by (auto simp: w'_def run persistedPhase_def issued_def reconcilingStatus_def
            failingStatus_def)
    qed
  qed
  from early late show ?thesis by blast
qed

theorem phase_transitions_witness:
  "persistedPhase (snd (Reconcile (simpleDeps (Inl (OtherError ''boom''))) grafanaKey
       (simpleWorld plainSpec healthyStatus []))) grafanaKey = Some PhaseFailing
   \<and> persistedPhase (snd (Reconcile (simpleDeps (Inr allEndpoints)) grafanaKey
       (simpleWorld plainSpec staleStatus []))) grafanaKey = Some PhaseReconciling
   \<and> map (\<lambda>u. Phase (fst u))
       (issued (simpleWorld plainSpec staleStatus [])
          (snd (Reconcile (simpleDeps (Inr noEndpoint)) grafanaKey
             (simpleWorld plainSpec staleStatus []))))
     = [PhaseReconciling, PhaseFailing]"
proof -
  let ?stale = "simpleWorld plainSpec staleStatus []"
  let ?healthy = "simpleWorld plainSpec healthyStatus []"
  let ?cr = "fetched grafanaKey plainSpec staleStatus"
  have worlds: "Faults ?stale = []" "Objects ?stale grafanaKey = Some (plainSpec, staleStatus)"
      "Faults ?healthy = []" "Objects ?healthy grafanaKey = Some (plainSpec, healthyStatus)"
    by (simp_all add: simpleWorld_def)
  have "Read (simpleDeps (Inl (OtherError ''boom''))) (fetched grafanaKey plainSpec healthyStatus)
          = Inl (OtherError ''boom'')"
    by (simp add: simpleDeps_def)
  with phase_transitions [OF worlds(3,4) refl,
      where d = "simpleDeps (Inl (OtherError ''boom''))" and issue = "OtherError ''boom''"]
  have early: "persistedPhase (snd (Reconcile (simpleDeps (Inl (OtherError ''boom''))) grafanaKey
       ?healthy)) grafanaKey = Some PhaseFailing"
    by simp
  have "Read (simpleDeps (Inr allEndpoints)) ?cr = Inr allEndpoints"
    and "RunAll (simpleDeps (Inr allEndpoints)) allEndpoints ?cr = None"
    and "reconcileConfigMaps (simpleDeps (Inr allEndpoints)) ?cr = None"
    and "snd (getGrafanaAdminUrl (simpleDeps (Inr allEndpoints)) ?cr allEndpoints) = None"
    by (simp_all add: simpleDeps_def getGrafanaAdminUrl_def preferService_def fetched_def
        plainSpec_def allEndpoints_def)
  with phase_transitions [OF worlds(1,2) refl, where d = "simpleDeps (Inr allEndpoints)"]
  have success: "persistedPhase (snd (Reconcile (simpleDeps (Inr allEndpoints)) grafanaKey
       ?stale)) grafanaKey = Some PhaseReconciling"
    by simp
  have "Read (simpleDeps (Inr noEndpoint)) ?cr = Inr noEndpoint"
    and "RunAll (simpleDeps (Inr noEndpoint)) noEndpoint ?cr = None"
    and "reconcileConfigMaps (simpleDeps (Inr noEndpoint)) ?cr = None"
    and "snd (getGrafanaAdminUrl (simpleDeps (Inr noEndpoint)) ?cr noEndpoint) \<noteq> None"
    and "staleStatus \<noteq> reconcilingStatus (simpleDeps (Inr noEndpoint)) ?cr (Config ?stale)"
    by (simp_all add: simpleDeps_def getGrafanaAdminUrl_def noEndpoint_def
        reconcilingStatus_def staleStatus_def fetched_def)
  with phase_transitions [OF worlds(1,2) refl, where d = "simpleDeps (Inr noEndpoint)"]
  have "map (\<lambda>u. Phase (fst u))
       (issued ?stale (snd (Reconcile (simpleDeps (Inr noEndpoint)) grafanaKey ?stale)))
     = [PhaseReconciling, PhaseFailing]"
    by simp
  with early success show ?thesis by simp
qed

text \<open>
  Claim C8 as stated excludes a cycle that persists \<open>Reconciling\<close> and then \<open>Failing\<close>.
  With no route, ingress or service, the cycle writes \<open>Reconciling\<close> and then \<open>Failing\<close>,
  and both writes are accepted.
\<close>

theorem phase_order_counterexample:
  "issued (simpleWorld plainSpec staleStatus [])
     (snd (Reconcile (simpleDeps (Inr noEndpoint)) grafanaKey (simpleWorld plainSpec staleStatus [])))
   = [(\<lparr>Phase = PhaseReconciling, Message = ''success'', InstalledDashboards = None\<rparr>, None),
      (\<lparr>Phase = PhaseFailing, Message = ''failed to find admin url'',
         InstalledDashboards = None\<rparr>, None)]"
  by (simp add: instance_defs cycle_defs)

subsection \<open>The published client timeout\<close>



end
